theory Spec2Isabelle
  imports Complex_Main "HOL-Library.Word"
begin

section \<open>Single-precision arithmetic as an interface\<close>

text \<open>
  \<^verbatim>\<open>odometry.cc\<close> computes in C++ \<^verbatim>\<open>float\<close>.  The embedding does not fix a
  semantics for it: the value type is a type parameter \<open>'f\<close> and every operation the source
  applies to a \<^verbatim>\<open>float\<close> is a field of the record below.  A theorem proved for an
  arbitrary \<open>ops\<close> uses no law of arithmetic at all, so it holds for the target's IEEE 754
  binary32 operations just as for exact arithmetic.  Where a property does need a fact
  about the arithmetic, the fact is an explicit hypothesis.

  \<^item> \<open>to_float\<close> is \<^verbatim>\<open>static_cast<float>\<close> from an integer value.  The literals
    \<^verbatim>\<open>0.0f\<close>, \<^verbatim>\<open>2.0f\<close>, \<^verbatim>\<open>1000.0f\<close> and \<^verbatim>\<open>1000'000.0f\<close> are written
    \<open>to_float ops 0\<close>, \<dots>: each is exactly representable, so the literal and the
    conversion denote the same value.
  \<^item> \<open>fneg\<close> (unary minus) is not used by the source; it is there to state
    ``opposite sign''.
\<close>

record 'f float_ops =
  fadd :: "'f \<Rightarrow> 'f \<Rightarrow> 'f"
  fsub :: "'f \<Rightarrow> 'f \<Rightarrow> 'f"
  fmul :: "'f \<Rightarrow> 'f \<Rightarrow> 'f"
  fdiv :: "'f \<Rightarrow> 'f \<Rightarrow> 'f"
  fneg :: "'f \<Rightarrow> 'f"
  fle :: "'f \<Rightarrow> 'f \<Rightarrow> bool"
  fabs :: "'f \<Rightarrow> 'f"
  fcos :: "'f \<Rightarrow> 'f"
  fsin :: "'f \<Rightarrow> 'f"
  to_float :: "int \<Rightarrow> 'f"
  pi_v :: "'f"
  epsilon :: "'f"

text \<open>
  The exact interpretation over the reals, with the binary32 machine epsilon \<open>2\<^sup>-\<^sup>2\<^sup>3\<close>.
  It is used to run the model on concrete inputs.  A division by zero, which gives a
  \<^verbatim>\<open>float\<close> infinity or NaN, gives 0 over the reals: every concrete input below has a
  nonzero resolution, elapsed time and track width, so that none divides by zero.
\<close>

definition exact_ops :: "real float_ops" where
  "exact_ops =
     \<lparr>fadd = (+), fsub = (-), fmul = (*), fdiv = (/), fneg = uminus,
      fle = (\<le>), fabs = abs, fcos = cos, fsin = sin,
      to_float = real_of_int, pi_v = pi, epsilon = 1 / 8388608\<rparr>"

section \<open>\<^verbatim>\<open>class Wheel\<close>\<close>

type_synonym uint16_t = "16 word"
type_synonym uint32_t = "32 word"

text \<open>
  The members of lines 29--56.  A name cannot end in an underscore here, so a member
  \<^verbatim>\<open>name_\<close> of \<^verbatim>\<open>Wheel\<close> is the field \<open>name_w\<close>.
\<close>

record 'f Wheel =
  tire_diameter_w :: "'f"
  invert_w :: bool
  reset_w :: bool
  resolution_w :: uint16_t
  resolution_half_w :: uint16_t
  angle_per_resolution_w :: "'f"
  previous_w :: uint16_t
  angular_acceleration_w :: "'f"
  angular_velocity_w :: "'f"
  velocity_w :: "'f"

text \<open>
  The constructor (\<^verbatim>\<open>odometry.cc\<close> lines 87--93) with the default member initialisers
  of lines 35--56.  \<^verbatim>\<open>resolution / 2\<close> is computed in \<^verbatim>\<open>int\<close> and narrowed back; on
  a 16-bit value that is the unsigned word division.
\<close>

definition Wheel_ctor :: "'f float_ops \<Rightarrow> uint16_t \<Rightarrow> 'f \<Rightarrow> bool \<Rightarrow> 'f Wheel" where
  "Wheel_ctor ops resolution tire_diameter invert =
     \<lparr>tire_diameter_w = tire_diameter,
      invert_w = invert,
      reset_w = True,
      resolution_w = resolution,
      resolution_half_w = resolution div 2,
      angle_per_resolution_w =
        fdiv ops (fmul ops (to_float ops 2) (pi_v ops)) (to_float ops (uint resolution)),
      previous_w = 0,
      angular_acceleration_w = to_float ops 0,
      angular_velocity_w = to_float ops 0,
      velocity_w = to_float ops 0\<rparr>"

text \<open>
  Lines 67--74 of \<^verbatim>\<open>calculate_angular_velocity\<close>: the tick delta.  Both operands of
  \<^verbatim>\<open>current - previous_\<close> are \<^verbatim>\<open>uint16_t\<close> and are promoted to the target's 32-bit
  \<^verbatim>\<open>int\<close>, so \<^verbatim>\<open>delta\<close> is a signed value between \<open>-65535\<close> and \<open>65535\<close>, and
  between \<open>-131070\<close> and \<open>131070\<close> after the correction: nothing wraps, and \<open>int\<close>
  is exact.
\<close>

definition tick_delta :: "'f Wheel \<Rightarrow> uint16_t \<Rightarrow> int" where
  "tick_delta w current =
     (let delta = uint current - uint (previous_w w) in
      if \<bar>delta\<bar> \<ge> uint (resolution_half_w w) then
        if previous_w w \<ge> resolution_half_w w then delta + uint (resolution_w w)
        else delta - uint (resolution_w w)
      else delta)"

text \<open>Lines 64--79: the tick delta converted to an angle and to radians per second.\<close>

definition calculate_angular_velocity ::
  "'f float_ops \<Rightarrow> 'f Wheel \<Rightarrow> uint16_t \<Rightarrow> uint32_t \<Rightarrow> 'f" where
  "calculate_angular_velocity ops w current delta_us =
     (let delta = tick_delta w current;
          angle = fmul ops (to_float ops delta) (angle_per_resolution_w w)
      in fmul ops (fdiv ops angle (to_float ops (uint delta_us))) (to_float ops 1000000))"

text \<open>
  \<^verbatim>\<open>Wheel::update\<close> (lines 101--117).  \<^verbatim>\<open>current = resolution_ - current\<close> is
  computed in \<^verbatim>\<open>int\<close> and narrowed to \<^verbatim>\<open>uint16_t\<close>, which is the subtraction of
  16-bit words (it wraps when \<open>current > resolution_w\<close>).
\<close>

definition Wheel_update ::
  "'f float_ops \<Rightarrow> 'f Wheel \<Rightarrow> uint16_t \<Rightarrow> uint32_t \<Rightarrow> 'f Wheel" where
  "Wheel_update ops w current0 delta_us =
     (let current = (if invert_w w then resolution_w w - current0 else current0);
          w1 = (if reset_w w then w\<lparr>previous_w := current, reset_w := False\<rparr> else w);
          angular_velocity = calculate_angular_velocity ops w1 current delta_us
      in w1\<lparr>angular_acceleration_w :=
               fmul ops
                 (fdiv ops (fsub ops angular_velocity (angular_acceleration_w w1))
                    (to_float ops (uint delta_us)))
                 (to_float ops 1000000),
             velocity_w :=
               fmul ops angular_velocity
                 (fdiv ops (tire_diameter_w w1) (to_float ops 2)),
             angular_velocity_w := angular_velocity,
             previous_w := current\<rparr>)"

text \<open>\<^verbatim>\<open>Wheel::reset\<close> (lines 122--127).\<close>

definition Wheel_reset :: "'f float_ops \<Rightarrow> 'f Wheel \<Rightarrow> 'f Wheel" where
  "Wheel_reset ops w =
     w\<lparr>reset_w := True,
       angular_velocity_w := to_float ops 0,
       angular_acceleration_w := to_float ops 0,
       velocity_w := to_float ops 0\<rparr>"

text \<open>The accessors of lines 129--133.\<close>

definition Wheel_angular_velocity :: "'f Wheel \<Rightarrow> 'f" where
  "Wheel_angular_velocity w = angular_velocity_w w"

definition Wheel_angular_acceleration :: "'f Wheel \<Rightarrow> 'f" where
  "Wheel_angular_acceleration w = angular_acceleration_w w"

definition Wheel_velocity :: "'f Wheel \<Rightarrow> 'f" where
  "Wheel_velocity w = velocity_w w"

section \<open>\<^verbatim>\<open>class Odometry::OdometryImpl\<close>\<close>

record 'f WheelsPair =
  left :: "'f"
  right :: "'f"

text \<open>
  The fields of lines 139--160.  The driver reference \<^verbatim>\<open>dri_\<close> is not state of the
  estimator: what is read through it (the two encoders' \<^verbatim>\<open>resolution()\<close> at
  construction, their \<^verbatim>\<open>raw()\<close> at each update) is an argument of the operation that
  reads it.  Members carry the suffix \<open>_o\<close> here as they carry \<open>_w\<close> in \<open>Wheel\<close>.
\<close>

record 'f OdometryImpl =
  wheel_track_width_o :: "'f"
  left_o :: "'f Wheel"
  right_o :: "'f Wheel"
  wheel_ang_accel_o :: "'f WheelsPair"
  wheel_ang_vel_o :: "'f WheelsPair"
  wheel_vel_o :: "'f WheelsPair"
  velocity_o :: "'f"
  angular_velocity_o :: "'f"
  angle_o :: "'f"
  x_o :: "'f"
  y_o :: "'f"

text \<open>The constructor (lines 163--167); \<^verbatim>\<open>WheelsPair{}\<close> is zero-initialised.\<close>

definition OdometryImpl_ctor ::
  "'f float_ops \<Rightarrow> uint16_t \<Rightarrow> uint16_t \<Rightarrow> 'f \<Rightarrow> 'f \<Rightarrow> 'f OdometryImpl" where
  "OdometryImpl_ctor ops resolution_left resolution_right wheel_track_width tire_diameter =
     \<lparr>wheel_track_width_o = wheel_track_width,
      left_o = Wheel_ctor ops resolution_left tire_diameter False,
      right_o = Wheel_ctor ops resolution_right tire_diameter True,
      wheel_ang_accel_o = \<lparr>left = to_float ops 0, right = to_float ops 0\<rparr>,
      wheel_ang_vel_o = \<lparr>left = to_float ops 0, right = to_float ops 0\<rparr>,
      wheel_vel_o = \<lparr>left = to_float ops 0, right = to_float ops 0\<rparr>,
      velocity_o = to_float ops 0,
      angular_velocity_o = to_float ops 0,
      angle_o = to_float ops 0,
      x_o = to_float ops 0,
      y_o = to_float ops 0\<rparr>"

text \<open>\<^verbatim>\<open>OdometryImpl::reset\<close> (lines 173--182).\<close>

definition reset :: "'f float_ops \<Rightarrow> 'f OdometryImpl \<Rightarrow> 'f OdometryImpl" where
  "reset ops s =
     s\<lparr>left_o := Wheel_reset ops (left_o s),
       right_o := Wheel_reset ops (right_o s),
       angle_o := to_float ops 0,
       x_o := to_float ops 0,
       y_o := to_float ops 0\<rparr>"

text \<open>
  \<^verbatim>\<open>OdometryImpl::update\<close> (lines 188--226).  \<open>raw_left\<close> and \<open>raw_right\<close> are what
  \<^verbatim>\<open>dri_.encoder_left->raw()\<close> and \<^verbatim>\<open>dri_.encoder_right->raw()\<close> return during the
  call.
\<close>

definition update ::
  "'f float_ops \<Rightarrow> 'f OdometryImpl \<Rightarrow> uint16_t \<Rightarrow> uint16_t \<Rightarrow> uint32_t \<Rightarrow> 'f OdometryImpl" where
  "update ops s raw_left raw_right delta_us =
     (let l = Wheel_update ops (left_o s) raw_left delta_us;
          r = Wheel_update ops (right_o s) raw_right delta_us;
          ang_vel = \<lparr>left = Wheel_angular_velocity l, right = Wheel_angular_velocity r\<rparr>;
          ang_accel =
            \<lparr>left = Wheel_angular_acceleration l, right = Wheel_angular_acceleration r\<rparr>;
          vel = \<lparr>left = Wheel_velocity l, right = Wheel_velocity r\<rparr>;
          velocity = fdiv ops (fadd ops (left vel) (right vel)) (to_float ops 2);
          angular_velocity = fdiv ops (fsub ops (left vel) (right vel)) (wheel_track_width_o s);
          angle = fadd ops (angle_o s) (fdiv ops angular_velocity (to_float ops 1000));
          (x, y) =
            (if fle ops (fabs ops (fsub ops (left vel) (right vel))) (epsilon ops) then
               let a = fdiv ops (fmul ops velocity (to_float ops (uint delta_us)))
                         (to_float ops 1000000)
               in (fadd ops (x_o s) (fmul ops a (fcos ops angle)),
                   fadd ops (y_o s) (fmul ops a (fsin ops angle)))
             else
               let delta = fdiv ops (fsub ops angle (angle_o s)) (to_float ops 2);
                   a = fmul ops (fdiv ops (fmul ops (to_float ops 2) velocity) angular_velocity)
                         (fsin ops delta);
                   b = fadd ops angle delta
               in (fadd ops (x_o s) (fmul ops a (fcos ops b)),
                   fadd ops (y_o s) (fmul ops a (fsin ops b))))
      in s\<lparr>left_o := l, right_o := r,
           wheel_ang_vel_o := ang_vel,
           wheel_ang_accel_o := ang_accel,
           wheel_vel_o := vel,
           velocity_o := velocity,
           angular_velocity_o := angular_velocity,
           x_o := x, y_o := y,
           angle_o := angle\<rparr>)"

text \<open>The queries of lines 228--233, under the names of the facade (lines 243--255).\<close>

definition wheels_angular_acceleration :: "'f OdometryImpl \<Rightarrow> 'f WheelsPair" where
  "wheels_angular_acceleration s = wheel_ang_accel_o s"

definition wheels_angular_velocity :: "'f OdometryImpl \<Rightarrow> 'f WheelsPair" where
  "wheels_angular_velocity s = wheel_ang_vel_o s"

definition wheels_velocity :: "'f OdometryImpl \<Rightarrow> 'f WheelsPair" where
  "wheels_velocity s = wheel_vel_o s"

definition Odometry_angle :: "'f OdometryImpl \<Rightarrow> 'f" where
  "Odometry_angle s = angle_o s"

definition Odometry_x :: "'f OdometryImpl \<Rightarrow> 'f" where
  "Odometry_x s = x_o s"

definition Odometry_y :: "'f OdometryImpl \<Rightarrow> 'f" where
  "Odometry_y s = y_o s"

section \<open>Notions used to state the properties\<close>

text \<open>
  What the constructor of a wheel establishes and no member function changes: the half
  resolution and the angle of one tick are those of the resolution.
\<close>

definition Wheel_inv :: "'f float_ops \<Rightarrow> 'f Wheel \<Rightarrow> bool" where
  "Wheel_inv ops w \<longleftrightarrow>
     resolution_half_w w = resolution_w w div 2 \<and>
     angle_per_resolution_w w =
       fdiv ops (fmul ops (to_float ops 2) (pi_v ops)) (to_float ops (uint (resolution_w w)))"

text \<open>
  Lines 76--78 on their own: the angular velocity that \<^verbatim>\<open>calculate_angular_velocity\<close>
  returns for a tick delta \<open>d\<close> on a wheel of resolution \<open>R\<close>.
\<close>

definition velocity_of_ticks :: "'f float_ops \<Rightarrow> uint16_t \<Rightarrow> int \<Rightarrow> uint32_t \<Rightarrow> 'f" where
  "velocity_of_ticks ops R d delta_us =
     fmul ops
       (fdiv ops
          (fmul ops (to_float ops d)
             (fdiv ops (fmul ops (to_float ops 2) (pi_v ops)) (to_float ops (uint R))))
          (to_float ops (uint delta_us)))
       (to_float ops 1000000)"

text \<open>A caller feeding a wheel a sequence of raw readings, each with its elapsed time.\<close>

fun Wheel_updates ::
  "'f float_ops \<Rightarrow> 'f Wheel \<Rightarrow> (uint16_t \<times> uint32_t) list \<Rightarrow> 'f Wheel" where
  "Wheel_updates ops w [] = w"
| "Wheel_updates ops w ((raw, delta_us) # xs) =
     Wheel_updates ops (Wheel_update ops w raw delta_us) xs"

text \<open>
  The one step between two readings of a counter of even resolution \<open>R\<close> on which the
  two wheels of the polarity property part: from the reading \<open>R div 2\<close> to the reading 0.
\<close>

definition half_turn_to_zero :: "uint16_t \<Rightarrow> uint16_t \<Rightarrow> uint16_t \<Rightarrow> bool" where
  "half_turn_to_zero R a b \<longleftrightarrow> a = R div 2 \<and> b = 0"

text \<open>
  The facts about signs that ``equal magnitude and opposite sign'' rests on: converting
  a nonzero integer, multiplying and dividing commute with negation, and the absolute
  value ignores it.  IEEE 754 arithmetic has them, all NaNs taken as one value (rounding
  is symmetric; zero is left out because \<^verbatim>\<open>static_cast<float>(0)\<close> is \<open>+0\<close>, not
  \<open>-0\<close>), and so has exact arithmetic.
\<close>

definition sign_symmetric :: "'f float_ops \<Rightarrow> bool" where
  "sign_symmetric ops \<longleftrightarrow>
     (\<forall>n. n \<noteq> 0 \<longrightarrow> to_float ops (- n) = fneg ops (to_float ops n)) \<and>
     (\<forall>a b. fmul ops (fneg ops a) b = fneg ops (fmul ops a b)) \<and>
     (\<forall>a b. fdiv ops (fneg ops a) b = fneg ops (fdiv ops a b)) \<and>
     (\<forall>a. fabs ops (fneg ops a) = fabs ops a)"

text \<open>
  Two wheels of the same resolution, the first not inverted and the second inverted, that
  have been fed the same raw readings: both seeding, or both running with the stored
  readings \<open>p\<close> and \<open>R - p\<close>.
\<close>

definition mirrored :: "'f float_ops \<Rightarrow> uint16_t \<Rightarrow> 'f Wheel \<Rightarrow> 'f Wheel \<Rightarrow> bool" where
  "mirrored ops R wa wb \<longleftrightarrow>
     Wheel_inv ops wa \<and> Wheel_inv ops wb \<and>
     resolution_w wa = R \<and> resolution_w wb = R \<and>
     \<not> invert_w wa \<and> invert_w wb \<and> reset_w wb = reset_w wa \<and>
     (reset_w wa \<or> previous_w wa < R \<and> previous_w wb = R - previous_w wa)"

text \<open>
  Two concrete estimators under exact arithmetic, each after its seeding update with both
  encoders at 0.  Both have the encoder's resolution 1024 and a track width of 100 mm.
  The first has a tire of 30 mm and is updated every 1000 microseconds.  The second has
  a tire so small (\<open>2\<^sup>-\<^sup>1\<^sup>6\<close> mm) that one tick in a second is a wheel velocity below the
  machine epsilon.
\<close>

definition cadence_state :: "real OdometryImpl" where
  "cadence_state = update exact_ops (OdometryImpl_ctor exact_ops 1024 1024 100 30) 0 0 1000"

definition sliver_state :: "real OdometryImpl" where
  "sliver_state =
     update exact_ops (OdometryImpl_ctor exact_ops 1024 1024 100 (1 / 65536)) 0 0 1000000"

section \<open>The wheel: invariant, fields after an update, tick delta\<close>

lemmas run_defs =
  update_def OdometryImpl_ctor_def Let_def split_def
  Wheel_update_def Wheel_ctor_def calculate_angular_velocity_def tick_delta_def
  Wheel_velocity_def Wheel_angular_velocity_def Wheel_angular_acceleration_def
  wheels_velocity_def exact_ops_def

lemma Wheel_inv_ctor: "Wheel_inv ops (Wheel_ctor ops R td b)"
  by (simp add: Wheel_inv_def Wheel_ctor_def)

lemma Wheel_inv_update: "Wheel_inv ops w \<Longrightarrow> Wheel_inv ops (Wheel_update ops' w c dt)"
  by (simp add: Wheel_inv_def Wheel_update_def Let_def)

lemma Wheel_inv_reset: "Wheel_inv ops w \<Longrightarrow> Wheel_inv ops (Wheel_reset ops' w)"
  by (simp add: Wheel_inv_def Wheel_reset_def)

lemma update_fields:
  "previous_w (Wheel_update ops w r dt) = (if invert_w w then resolution_w w - r else r)"
  "reset_w (Wheel_update ops w r dt) = False"
  "invert_w (Wheel_update ops w r dt) = invert_w w"
  "resolution_w (Wheel_update ops w r dt) = resolution_w w"
  by (simp_all add: Wheel_update_def Let_def)

lemma update_angular_velocity:
  assumes "Wheel_inv ops w"
  shows "angular_velocity_w (Wheel_update ops w r dt) =
     (let c = (if invert_w w then resolution_w w - r else r) in
      velocity_of_ticks ops (resolution_w w)
        (tick_delta (if reset_w w then w\<lparr>previous_w := c, reset_w := False\<rparr> else w) c) dt)"
  using assms
  by (simp add: Wheel_update_def Let_def calculate_angular_velocity_def velocity_of_ticks_def
      Wheel_inv_def)

text \<open>The tick delta over the integers: the comparison of two words is that of their values.\<close>

lemma tick_delta_int:
  "tick_delta w c =
     (if \<bar>uint c - uint (previous_w w)\<bar> \<ge> uint (resolution_half_w w) then
        if uint (previous_w w) \<ge> uint (resolution_half_w w)
        then uint c - uint (previous_w w) + uint (resolution_w w)
        else uint c - uint (previous_w w) - uint (resolution_w w)
      else uint c - uint (previous_w w))"
  by (simp add: tick_delta_def Let_def word_le_def)

lemma uint_half: "uint (R div 2 :: 16 word) = uint R div 2"
  by (simp add: uint_div)

lemma uint_mirror: "r < R \<Longrightarrow> uint (R - r) = uint R - uint r" for r R :: "16 word"
  by (simp add: uint_minus_simple_alt [symmetric] less_imp_le)

lemma tick_delta_zero_crossing:
  assumes "resolution_half_w w = resolution_w w div 2"
    and "1 \<le> k" "2 * k < uint (resolution_w w)"
    and "uint (previous_w w) = k - 1" "uint raw = uint (resolution_w w) - 1"
  shows "tick_delta w raw = - k"
proof -
  let ?R = "uint (resolution_w w)"
  have "k \<le> ?R div 2" "?R div 2 \<le> ?R - k"
    using assms(2,3) by arith+
  then show ?thesis
    using assms by (simp add: tick_delta_int uint_half)
qed

text \<open>With a half resolution of at least 1, the delta of a reading to itself is 0.\<close>

lemma tick_delta_seeded:
  assumes "2 \<le> uint (resolution_w w)" "resolution_half_w w = resolution_w w div 2"
  shows "tick_delta (w\<lparr>previous_w := c, reset_w := False\<rparr>) c = 0"
  using assms by (simp add: tick_delta_int uint_half)

section \<open>Wraparound across the zero crossing\<close>

text \<open>
  Claim C1.  A wheel of resolution \<open>R\<close>, not inverted, is running (not just reset) and
  holds the previous reading \<open>k - 1\<close>, with \<open>1 \<le> k\<close> and \<open>k < R / 2\<close> (that is,
  \<open>2 k < R\<close>).  An update with the raw reading \<open>R - 1\<close> computes the tick delta
  \<open>-k\<close>, a backward rotation of \<open>k\<close> ticks and not a forward one of \<open>R - k\<close>, and
  the angular velocity it stores is \<open>-k * (2 pi / R) / elapsed_us * 1000000\<close>, in the
  source's own order of operations.
\<close>

theorem wraparound_backward_rotation:
  assumes "Wheel_inv ops w" "\<not> invert_w w" "\<not> reset_w w"
    and "1 \<le> k" "2 * k < uint (resolution_w w)"
    and "uint (previous_w w) = k - 1" "uint raw = uint (resolution_w w) - 1"
  shows "tick_delta w raw = - k \<and>
    angular_velocity_w (Wheel_update ops w raw elapsed_us) =
      fmul ops
        (fdiv ops
           (fmul ops (to_float ops (- k))
              (fdiv ops (fmul ops (to_float ops 2) (pi_v ops))
                 (to_float ops (uint (resolution_w w)))))
           (to_float ops (uint elapsed_us)))
        (to_float ops 1000000)"
proof -
  have d: "tick_delta w raw = - k"
    using assms by (intro tick_delta_zero_crossing) (simp_all add: Wheel_inv_def)
  show ?thesis
    using assms(1-3) d
    by (simp add: Wheel_update_def calculate_angular_velocity_def Wheel_inv_def Let_def)
qed

text \<open>
  At resolution 1024 with the previous reading 9 (\<open>k = 10\<close>), the reading 1023 after
  1000 microseconds gives \<open>-10\<close> ticks.
\<close>

theorem wraparound_backward_rotation_witness:
  "tick_delta ((Wheel_ctor exact_ops 1024 30 False)\<lparr>reset_w := False, previous_w := 9\<rparr>) 1023
     = - 10 \<and>
   angular_velocity_w
     (Wheel_update exact_ops
        ((Wheel_ctor exact_ops 1024 30 False)\<lparr>reset_w := False, previous_w := 9\<rparr>) 1023 1000)
     = - 10 * (2 * pi / 1024) / 1000 * 1000000"
  using wraparound_backward_rotation
    [of exact_ops "(Wheel_ctor exact_ops 1024 30 False)\<lparr>reset_w := False, previous_w := 9\<rparr>"
       10 1023 1000]
  by (simp add: Wheel_inv_def Wheel_ctor_def exact_ops_def)

section \<open>The direction of the wraparound correction\<close>

text \<open>
  Claim C2 says that a naive delta \<open>d\<close> with \<open>|d| \<ge> half_resolution\<close> is corrected by
  adding the resolution when the previous reading is below the half resolution and by
  subtracting it otherwise.  The source does the opposite.  On a running wheel of
  resolution 1024 holding the previous reading 0, the reading 1023 has the naive delta
  1023; the previous reading is below 512; the source subtracts 1024 and computes \<open>-1\<close>,
  not \<open>1023 + 1024\<close>.
\<close>

theorem wraparound_correction_direction_counterexample:
  "uint (resolution_half_w
           ((Wheel_ctor exact_ops 1024 30 False)\<lparr>reset_w := False, previous_w := 0\<rparr>))
     \<le> \<bar>uint (1023 :: uint16_t)
          - uint (previous_w
                    ((Wheel_ctor exact_ops 1024 30 False)\<lparr>reset_w := False, previous_w := 0\<rparr>))\<bar> \<and>
   previous_w ((Wheel_ctor exact_ops 1024 30 False)\<lparr>reset_w := False, previous_w := 0\<rparr>)
     < resolution_half_w
         ((Wheel_ctor exact_ops 1024 30 False)\<lparr>reset_w := False, previous_w := 0\<rparr>) \<and>
   tick_delta ((Wheel_ctor exact_ops 1024 30 False)\<lparr>reset_w := False, previous_w := 0\<rparr>) 1023
     = - 1 \<and>
   tick_delta ((Wheel_ctor exact_ops 1024 30 False)\<lparr>reset_w := False, previous_w := 0\<rparr>) 1023
     \<noteq> uint (1023 :: uint16_t)
          - uint (previous_w
                    ((Wheel_ctor exact_ops 1024 30 False)\<lparr>reset_w := False, previous_w := 0\<rparr>))
          + uint (resolution_w
                    ((Wheel_ctor exact_ops 1024 30 False)\<lparr>reset_w := False, previous_w := 0\<rparr>))"
  by (simp add: tick_delta_def Wheel_ctor_def)

text \<open>
  Claim C2, amended.  Whenever the naive delta \<open>d = current - previous\<close> has
  \<open>|d| \<ge> half_resolution\<close>, the source subtracts the resolution from \<open>d\<close> if the
  previous reading is below the half resolution, and adds the resolution to \<open>d\<close>
  otherwise.
\<close>

theorem wraparound_correction_direction:
  assumes "uint (resolution_half_w w) \<le> \<bar>uint current - uint (previous_w w)\<bar>"
  shows "tick_delta w current =
     (if previous_w w < resolution_half_w w
      then uint current - uint (previous_w w) - uint (resolution_w w)
      else uint current - uint (previous_w w) + uint (resolution_w w))"
  using assms by (auto simp add: tick_delta_def Let_def)

text \<open>From the previous reading 1000 to the reading 5 at resolution 1024: \<open>-995 + 1024\<close>.\<close>

theorem wraparound_correction_direction_witness:
  "tick_delta ((Wheel_ctor exact_ops 1024 30 False)\<lparr>reset_w := False, previous_w := 1000\<rparr>) 5
     = 29"
  using wraparound_correction_direction
    [of "(Wheel_ctor exact_ops 1024 30 False)\<lparr>reset_w := False, previous_w := 1000\<rparr>" 5]
  by (simp add: Wheel_ctor_def)

section \<open>The seeding update\<close>

text \<open>
  Claim C5 says that the first update after construction or reset yields the angular
  velocity 0 on every wheel.  It does not on a wheel of resolution 1: the half resolution
  is then 0, the test \<^verbatim>\<open>std::abs(delta) >= resolution_half_\<close> holds for the delta 0 of
  the seeding update, and the correction adds the resolution, so the update computes one
  tick and the angular velocity \<open>2 pi / elapsed_us * 1000000\<close>.
\<close>

theorem seeding_update_counterexample:
  "reset_w (Wheel_ctor exact_ops 1 30 False) \<and>
   angular_velocity_w (Wheel_update exact_ops (Wheel_ctor exact_ops 1 30 False) 0 1000)
     \<noteq> to_float exact_ops 0"
  by (simp add: Wheel_update_def Wheel_ctor_def calculate_angular_velocity_def tick_delta_def
      exact_ops_def)

text \<open>
  Claim C5, amended.  A wheel is seeding after its construction and after a reset.  On a
  seeding wheel of resolution at least 2, an update with any raw reading computes the
  tick delta 0; it stores the polarity-corrected reading as the previous reading, and it
  leaves the wheel running.  The angular velocity it stores is \<open>0 * angle_per_tick /
  elapsed_us * 1000000\<close>, which is 0 in an arithmetic where \<open>0 * angle_per_tick\<close>,
  \<open>0 / elapsed_us\<close> and \<open>0 * 1000000\<close> are 0: IEEE 754 arithmetic for a finite angle per
  tick and \<open>elapsed_us > 0\<close>.
\<close>

theorem seeding_update:
  assumes "Wheel_inv ops w" "reset_w w" "2 \<le> uint (resolution_w w)"
    and "fmul ops (to_float ops 0) (angle_per_resolution_w w) = to_float ops 0"
    and "fdiv ops (to_float ops 0) (to_float ops (uint elapsed_us)) = to_float ops 0"
    and "fmul ops (to_float ops 0) (to_float ops 1000000) = to_float ops 0"
  shows "reset_w (Wheel_ctor ops R td b) \<and> reset_w (Wheel_reset ops w0) \<and>
    tick_delta
      (w\<lparr>previous_w := (if invert_w w then resolution_w w - raw else raw), reset_w := False\<rparr>)
      (if invert_w w then resolution_w w - raw else raw) = 0 \<and>
    angular_velocity_w (Wheel_update ops w raw elapsed_us) = to_float ops 0 \<and>
    previous_w (Wheel_update ops w raw elapsed_us)
      = (if invert_w w then resolution_w w - raw else raw) \<and>
    \<not> reset_w (Wheel_update ops w raw elapsed_us)"
proof -
  have d: "tick_delta (w\<lparr>previous_w := c, reset_w := False\<rparr>) c = 0" for c
    using assms(1,3) by (intro tick_delta_seeded) (simp_all add: Wheel_inv_def)
  show ?thesis
    using assms(2,4-6) d
    by (simp add: Wheel_update_def calculate_angular_velocity_def Let_def Wheel_ctor_def
        Wheel_reset_def)
qed

text \<open>An inverted wheel of resolution 1024 seeded with the raw reading 700.\<close>

theorem seeding_update_witness:
  "angular_velocity_w (Wheel_update exact_ops (Wheel_ctor exact_ops 1024 30 True) 700 1000) = 0 \<and>
   previous_w (Wheel_update exact_ops (Wheel_ctor exact_ops 1024 30 True) 700 1000) = 324 \<and>
   \<not> reset_w (Wheel_update exact_ops (Wheel_ctor exact_ops 1024 30 True) 700 1000)"
  using seeding_update [of exact_ops "Wheel_ctor exact_ops 1024 30 True" 1000 700]
  by (simp add: Wheel_inv_def Wheel_ctor_def exact_ops_def)

section \<open>The acceleration recurrence\<close>

text \<open>
  Claim C6.  Every update of a wheel stores as angular acceleration
  \<open>(new_angular_velocity - previous_angular_acceleration) / elapsed_us * 1000000\<close>:
  what is subtracted from the new angular velocity is the acceleration stored before the
  call, not the angular velocity stored before the call.
\<close>

theorem acceleration_recurrence:
  "angular_acceleration_w (Wheel_update ops w current elapsed_us) =
     fmul ops
       (fdiv ops
          (fsub ops (angular_velocity_w (Wheel_update ops w current elapsed_us))
             (angular_acceleration_w w))
          (to_float ops (uint elapsed_us)))
       (to_float ops 1000000)"
  by (simp add: Wheel_update_def Let_def)

section \<open>The readings of an inverted wheel\<close>

text \<open>
  Claim C10.  An update of an inverted wheel stores \<open>resolution - r\<close> for the raw
  reading \<open>r\<close>.  Over the raw readings in \<open>[0, resolution)\<close> the stored readings are
  exactly the values of \<open>[1, resolution]\<close>; the raw reading 0 is stored as the
  resolution itself, which is not below the resolution.
\<close>

theorem invert_reading_range:
  assumes "invert_w w"
  shows "previous_w (Wheel_update ops w r elapsed_us) = resolution_w w - r \<and>
    (\<lambda>r. previous_w (Wheel_update ops w r elapsed_us)) ` {r. r < resolution_w w}
       = {v. 0 < v \<and> v \<le> resolution_w w} \<and>
    previous_w (Wheel_update ops w 0 elapsed_us) = resolution_w w \<and>
    \<not> previous_w (Wheel_update ops w 0 elapsed_us) < resolution_w w"
proof -
  have a: "previous_w (Wheel_update ops w r elapsed_us) = resolution_w w - r" for r
    using assms by (simp add: update_fields)
  have 1: "0 < R - r \<and> R - r \<le> R" if "r < R" for r R :: "16 word"
    using that by unat_arith
  have 2: "R - v < R \<and> R - (R - v) = v" if "0 < v" "v \<le> R" for v R :: "16 word"
    using that by unat_arith
  have "(-) (resolution_w w) ` {r. r < resolution_w w} = {v. 0 < v \<and> v \<le> resolution_w w}"
  proof (intro set_eqI iffI)
    fix v assume "v \<in> (-) (resolution_w w) ` {r. r < resolution_w w}"
    then show "v \<in> {v. 0 < v \<and> v \<le> resolution_w w}" using 1 by auto
  next
    fix v assume "v \<in> {v. 0 < v \<and> v \<le> resolution_w w}"
    then have "resolution_w w - v < resolution_w w" "resolution_w w - (resolution_w w - v) = v"
      using 2 by auto
    then show "v \<in> (-) (resolution_w w) ` {r. r < resolution_w w}"
      by (metis (mono_tags, lifting) image_eqI mem_Collect_eq)
  qed
  then show ?thesis by (simp add: a)
qed

text \<open>At resolution 1024 the raw reading 0 is stored as 1024 and the raw reading 1023 as 1.\<close>

theorem invert_reading_range_witness:
  "invert_w (Wheel_ctor exact_ops 1024 30 True) \<and>
   previous_w (Wheel_update exact_ops (Wheel_ctor exact_ops 1024 30 True) 0 1000) = 1024 \<and>
   previous_w (Wheel_update exact_ops (Wheel_ctor exact_ops 1024 30 True) 1023 1000) = 1"
  using invert_reading_range [of "Wheel_ctor exact_ops 1024 30 True" exact_ops 1023 1000]
        invert_reading_range [of "Wheel_ctor exact_ops 1024 30 True" exact_ops 0 1000]
  by (simp add: Wheel_ctor_def)

section \<open>Polarity\<close>

text \<open>
  Claim C7.  Two wheels of the same resolution and tire diameter with opposite invert
  flags, fed the same raw readings in \<open>[0, resolution)\<close> with the same positive elapsed
  times, are to have angular velocities of equal magnitude and opposite sign after each
  step.  The source breaks this at the encoder's resolution 1024 on the readings 512 and
  then 0, 1000 microseconds apart.  The wheel that is not inverted computes
  \<open>-512 + 1024 = 512\<close> ticks.  The inverted wheel has stored \<open>1024 - 512 = 512\<close>,
  turns the raw reading 0 into \<open>1024 - 0 = 1024\<close>, which is not below the resolution,
  and has the delta 512; the test \<^verbatim>\<open>previous_ >= resolution_half_\<close> of line 69 holds
  and line 70 adds the resolution: \<open>512 + 1024 = 1536\<close> ticks, more than a full turn.
  The two angular velocities are the conversions of 512 and of 1536 ticks, and their
  absolute values differ.
\<close>

theorem polarity_half_turn:
  "previous_w (Wheel_update exact_ops (Wheel_ctor exact_ops 1024 30 True) 512 1000) = 512 \<and>
   previous_w
     (Wheel_update exact_ops
        (Wheel_update exact_ops (Wheel_ctor exact_ops 1024 30 True) 512 1000) 0 1000)
     = 1024 \<and>
   angular_velocity_w
     (Wheel_update exact_ops
        (Wheel_update exact_ops (Wheel_ctor exact_ops 1024 30 False) 512 1000) 0 1000)
     = velocity_of_ticks exact_ops 1024 512 1000 \<and>
   angular_velocity_w
     (Wheel_update exact_ops
        (Wheel_update exact_ops (Wheel_ctor exact_ops 1024 30 True) 512 1000) 0 1000)
     = velocity_of_ticks exact_ops 1024 1536 1000 \<and>
   fabs exact_ops
     (angular_velocity_w
        (Wheel_update exact_ops
           (Wheel_update exact_ops (Wheel_ctor exact_ops 1024 30 True) 512 1000) 0 1000))
   \<noteq> fabs exact_ops
       (angular_velocity_w
          (Wheel_update exact_ops
             (Wheel_update exact_ops (Wheel_ctor exact_ops 1024 30 False) 512 1000) 0 1000))"
  by (simp add: Wheel_update_def Wheel_ctor_def calculate_angular_velocity_def tick_delta_def
      velocity_of_ticks_def exact_ops_def)

text \<open>
  That step is the only one of its kind.  At an even resolution \<open>R\<close>, a stored reading
  \<open>p\<close> and a new reading \<open>c\<close>, both in \<open>[0, R)\<close> and not \<open>p = R div 2\<close> with
  \<open>c = 0\<close>, give the inverted wheel, which holds \<open>R - p\<close> and reads \<open>R - c\<close>, the
  negated tick delta.
\<close>

lemma mirror_arith:
  fixes R p c :: int
  assumes "even R" "0 \<le> p" "p < R" "0 \<le> c" "c < R"
    and "\<not> (p = R div 2 \<and> c = 0)"
  shows "(if \<bar>(R - c) - (R - p)\<bar> \<ge> R div 2 then
            if R - p \<ge> R div 2 then (R - c) - (R - p) + R else (R - c) - (R - p) - R
          else (R - c) - (R - p))
       = - (if \<bar>c - p\<bar> \<ge> R div 2 then
              if p \<ge> R div 2 then c - p + R else c - p - R
            else c - p)"
proof -
  define h where "h = R div 2"
  have h: "R = 2 * h"
    unfolding h_def using assms(1) by simp
  have e: "\<bar>(R - c) - (R - p)\<bar> = \<bar>c - p\<bar>"
    by simp
  show ?thesis
  proof (cases "\<bar>c - p\<bar> < h")
    case True
    then show ?thesis
      unfolding h_def [symmetric] e by simp
  next
    case False
    then have f: "h \<le> \<bar>c - p\<bar>"
      by simp
    have "p \<noteq> h"
      using f h assms(2-6) unfolding h_def [symmetric] by linarith
    then have "(h \<le> p) = (\<not> h \<le> R - p)"
      using h by linarith
    then show ?thesis
      unfolding h_def [symmetric] e using f by simp
  qed
qed

lemma mirrored_tick_delta:
  assumes m: "mirrored ops R wa wb" and nr: "\<not> reset_w wa" and ev: "even (uint R)"
    and raw: "raw < R" and nh: "\<not> half_turn_to_zero R (previous_w wa) raw"
  shows "tick_delta wb (R - raw) = - tick_delta wa raw"
proof -
  have f: "previous_w wa < R" "previous_w wb = R - previous_w wa"
    "resolution_w wa = R" "resolution_w wb = R"
    "resolution_half_w wa = R div 2" "resolution_half_w wb = R div 2"
    using m nr by (auto simp: mirrored_def Wheel_inv_def)
  define p c r where "p = uint (previous_w wa)" and "c = uint raw" and "r = uint R"
  have u: "0 \<le> p" "p < r" "0 \<le> c" "c < r"
    using f(1) raw by (simp_all add: word_less_def p_def c_def r_def)
  have "p = r div 2 \<longleftrightarrow> previous_w wa = R div 2"
    unfolding p_def r_def uint_half [symmetric] by (rule word_uint_eq_iff [symmetric])
  moreover have "c = 0 \<longleftrightarrow> raw = 0"
    unfolding c_def by (simp add: uint_0_iff)
  ultimately have w: "\<not> (p = r div 2 \<and> c = 0)"
    using nh by (simp add: half_turn_to_zero_def)
  have a: "tick_delta wa raw =
      (if \<bar>c - p\<bar> \<ge> r div 2 then if p \<ge> r div 2 then c - p + r else c - p - r else c - p)"
    by (simp add: tick_delta_int f(3,5) uint_half p_def c_def r_def)
  have b: "tick_delta wb (R - raw) =
      (if \<bar>(r - c) - (r - p)\<bar> \<ge> r div 2 then
         if r - p \<ge> r div 2 then (r - c) - (r - p) + r else (r - c) - (r - p) - r
       else (r - c) - (r - p))"
    by (simp add: tick_delta_int f(1,2,4,6) uint_mirror raw uint_half p_def c_def r_def)
  have er: "even r"
    using ev by (simp add: r_def)
  show ?thesis
    unfolding a b by (rule mirror_arith [OF er u w])
qed

text \<open>One update of both wheels with the same raw reading keeps them mirrored.\<close>

lemma mirrored_update:
  assumes m: "mirrored ops R wa wb" and R: "2 \<le> uint R" and ev: "even (uint R)"
    and raw: "raw < R" and nh: "reset_w wa \<or> \<not> half_turn_to_zero R (previous_w wa) raw"
  shows "mirrored ops R (Wheel_update ops wa raw dt) (Wheel_update ops wb raw dt) \<and>
    \<not> reset_w (Wheel_update ops wa raw dt) \<and>
    previous_w (Wheel_update ops wa raw dt) = raw \<and>
    (\<exists>d. angular_velocity_w (Wheel_update ops wa raw dt) = velocity_of_ticks ops R d dt \<and>
         angular_velocity_w (Wheel_update ops wb raw dt) = velocity_of_ticks ops R (- d) dt)"
proof -
  have f: "Wheel_inv ops wa" "Wheel_inv ops wb" "resolution_w wa = R" "resolution_w wb = R"
    "\<not> invert_w wa" "invert_w wb" "reset_w wb = reset_w wa"
    using m by (simp_all add: mirrored_def)
  have 1: "mirrored ops R (Wheel_update ops wa raw dt) (Wheel_update ops wb raw dt)"
    using f raw by (simp add: mirrored_def Wheel_inv_update update_fields)
  have 2: "\<exists>d. angular_velocity_w (Wheel_update ops wa raw dt) = velocity_of_ticks ops R d dt \<and>
         angular_velocity_w (Wheel_update ops wb raw dt) = velocity_of_ticks ops R (- d) dt"
  proof (cases "reset_w wa")
    case True
    have h: "resolution_half_w wa = resolution_w wa div 2"
      "resolution_half_w wb = resolution_w wb div 2"
      using f by (simp_all add: Wheel_inv_def)
    show ?thesis
      using True f R h
      by (intro exI [of _ 0]) (simp add: update_angular_velocity tick_delta_seeded)
  next
    case False
    with nh have w: "\<not> half_turn_to_zero R (previous_w wa) raw"
      by simp
    have d: "tick_delta wb (R - raw) = - tick_delta wa raw"
      using mirrored_tick_delta [OF m False ev raw w] .
    show ?thesis
      using False f d
      by (intro exI [of _ "tick_delta wa raw"]) (simp add: update_angular_velocity)
  qed
  show ?thesis
    using 1 2 f by (simp add: update_fields)
qed

text \<open>The same for a sequence of updates, by induction on the sequence.\<close>

lemma mirrored_updates:
  assumes "mirrored ops R wa wb" "2 \<le> uint R" "even (uint R)" "xs \<noteq> []"
    and "\<forall>x \<in> set xs. fst x < R"
    and "successively (\<lambda>a b. \<not> half_turn_to_zero R a b) (map fst xs)"
    and "reset_w wa \<or> \<not> half_turn_to_zero R (previous_w wa) (fst (hd xs))"
  shows "\<exists>d.
     angular_velocity_w (Wheel_updates ops wa xs) = velocity_of_ticks ops R d (snd (last xs)) \<and>
     angular_velocity_w (Wheel_updates ops wb xs) = velocity_of_ticks ops R (- d) (snd (last xs))"
  using assms
proof (induction xs arbitrary: wa wb)
  case Nil
  then show ?case by simp
next
  case (Cons x xs)
  obtain raw dt where x: "x = (raw, dt)"
    by (cases x)
  have s: "mirrored ops R (Wheel_update ops wa raw dt) (Wheel_update ops wb raw dt)"
    "\<not> reset_w (Wheel_update ops wa raw dt)"
    "previous_w (Wheel_update ops wa raw dt) = raw"
    "\<exists>d. angular_velocity_w (Wheel_update ops wa raw dt) = velocity_of_ticks ops R d dt \<and>
         angular_velocity_w (Wheel_update ops wb raw dt) = velocity_of_ticks ops R (- d) dt"
    using mirrored_update [of ops R wa wb raw dt] Cons.prems x by simp_all
  show ?case
  proof (cases xs)
    case Nil
    then show ?thesis
      using s(4) x by simp
  next
    case (Cons y ys)
    have "\<not> half_turn_to_zero R raw (fst y)"
      using Cons.prems(6) x Cons by simp
    then show ?thesis
      using Cons.IH [OF s(1) Cons.prems(2,3)] Cons.prems(5,6) s(3) x Cons
      by (simp add: successively_Cons)
  qed
qed

lemma velocity_of_ticks_minus:
  assumes "sign_symmetric ops"
  shows "fabs ops (velocity_of_ticks ops R (- d) dt) = fabs ops (velocity_of_ticks ops R d dt) \<and>
     (if d = 0 then velocity_of_ticks ops R (- d) dt = velocity_of_ticks ops R d dt
      else velocity_of_ticks ops R (- d) dt = fneg ops (velocity_of_ticks ops R d dt))"
proof (cases "d = 0")
  case True
  then show ?thesis by simp
next
  case False
  have 1: "to_float ops (- d) = fneg ops (to_float ops d)"
    using assms False unfolding sign_symmetric_def by blast
  have 2: "fmul ops (fneg ops a) b = fneg ops (fmul ops a b)" for a b
    using assms unfolding sign_symmetric_def by blast
  have 3: "fdiv ops (fneg ops a) b = fneg ops (fdiv ops a b)" for a b
    using assms unfolding sign_symmetric_def by blast
  have 4: "fabs ops (fneg ops a) = fabs ops a" for a
    using assms unfolding sign_symmetric_def by blast
  have "velocity_of_ticks ops R (- d) dt = fneg ops (velocity_of_ticks ops R d dt)"
    unfolding velocity_of_ticks_def 1 2 3 ..
  then show ?thesis
    using False 4 by simp
qed

text \<open>
  So the property holds of the source wherever that step does not occur.  Two wheels of
  an even resolution \<open>R\<close> of at least 2 with opposite invert flags are fed a nonempty
  sequence of raw readings in \<open>[0, R)\<close> in which the reading 0 never follows the reading
  \<open>R div 2\<close> directly.  Then the tick deltas of their last updates are \<open>d\<close> and \<open>-d\<close>
  and each angular velocity is the source's conversion of its tick delta; in a
  sign-symmetric arithmetic the two have the same absolute value and the one is the
  negation of the other (for \<open>d = 0\<close> both are the conversion of zero ticks).
\<close>

lemma polarity_off_half_turn:
  assumes "2 \<le> uint R" "even (uint R)" "xs \<noteq> []" "\<forall>x \<in> set xs. fst x < R"
    and "successively (\<lambda>a b. \<not> half_turn_to_zero R a b) (map fst xs)"
  shows "\<exists>d.
     angular_velocity_w (Wheel_updates ops (Wheel_ctor ops R td False) xs)
       = velocity_of_ticks ops R d (snd (last xs)) \<and>
     angular_velocity_w (Wheel_updates ops (Wheel_ctor ops R td True) xs)
       = velocity_of_ticks ops R (- d) (snd (last xs)) \<and>
     (sign_symmetric ops \<longrightarrow>
        fabs ops (angular_velocity_w (Wheel_updates ops (Wheel_ctor ops R td True) xs))
          = fabs ops (angular_velocity_w (Wheel_updates ops (Wheel_ctor ops R td False) xs)) \<and>
        (if d = 0
         then angular_velocity_w (Wheel_updates ops (Wheel_ctor ops R td True) xs)
                = angular_velocity_w (Wheel_updates ops (Wheel_ctor ops R td False) xs)
         else angular_velocity_w (Wheel_updates ops (Wheel_ctor ops R td True) xs)
                = fneg ops
                    (angular_velocity_w (Wheel_updates ops (Wheel_ctor ops R td False) xs))))"
proof -
  have m: "mirrored ops R (Wheel_ctor ops R td False) (Wheel_ctor ops R td True)"
    by (simp add: mirrored_def Wheel_inv_def Wheel_ctor_def)
  have r: "reset_w (Wheel_ctor ops R td False) \<or>
      \<not> half_turn_to_zero R (previous_w (Wheel_ctor ops R td False)) (fst (hd xs))"
    by (simp add: Wheel_ctor_def)
  obtain d where d:
    "angular_velocity_w (Wheel_updates ops (Wheel_ctor ops R td False) xs)
       = velocity_of_ticks ops R d (snd (last xs))"
    "angular_velocity_w (Wheel_updates ops (Wheel_ctor ops R td True) xs)
       = velocity_of_ticks ops R (- d) (snd (last xs))"
    using mirrored_updates [OF m assms r] by blast
  show ?thesis
    using d velocity_of_ticks_minus [of ops R d "snd (last xs)"] by (intro exI [of _ d]) simp
qed

text \<open>
  At resolution 1024, after the readings 0, 1000 and 488 (24 ticks backwards, then 512
  ticks): the inverted wheel's angular velocity is the negation of the other's.
\<close>

lemma polarity_off_half_turn_example:
  "angular_velocity_w
     (Wheel_updates exact_ops (Wheel_ctor exact_ops 1024 30 True)
        [(0, 1000), (1000, 1000), (488, 1000)])
   = fneg exact_ops
       (angular_velocity_w
          (Wheel_updates exact_ops (Wheel_ctor exact_ops 1024 30 False)
             [(0, 1000), (1000, 1000), (488, 1000)]))"
proof -
  have s: "sign_symmetric exact_ops"
    by (simp add: sign_symmetric_def exact_ops_def)
  have h: "2 \<le> uint (1024 :: uint16_t)" "even (uint (1024 :: uint16_t))"
    "[(0 :: uint16_t, 1000 :: uint32_t), (1000, 1000), (488, 1000)] \<noteq> []"
    "\<forall>x \<in> set [(0 :: uint16_t, 1000 :: uint32_t), (1000, 1000), (488, 1000)]. fst x < 1024"
    "successively (\<lambda>a b. \<not> half_turn_to_zero 1024 a b)
       (map fst [(0 :: uint16_t, 1000 :: uint32_t), (1000, 1000), (488, 1000)])"
    by (simp_all add: half_turn_to_zero_def)
  show ?thesis
    using s polarity_off_half_turn [OF h, of exact_ops 30]
    by (simp add: Wheel_update_def Wheel_ctor_def calculate_angular_velocity_def tick_delta_def
        Let_def exact_ops_def)
qed

section \<open>The pose: heading and straight-line displacement\<close>

text \<open>What an update commits when the test of line 211 holds (lines 208--216 and 225).\<close>

lemma update_straight_line:
  assumes "s' = update ops s raw_left raw_right elapsed_us"
    and "fle ops (fabs ops (fsub ops (left (wheels_velocity s')) (right (wheels_velocity s'))))
           (epsilon ops)"
  shows "angle_o s' = fadd ops (angle_o s) (fdiv ops (angular_velocity_o s') (to_float ops 1000))"
    and "x_o s' =
      fadd ops (x_o s)
        (fmul ops
           (fdiv ops (fmul ops (velocity_o s') (to_float ops (uint elapsed_us)))
              (to_float ops 1000000))
           (fcos ops (angle_o s')))"
    and "y_o s' =
      fadd ops (y_o s)
        (fmul ops
           (fdiv ops (fmul ops (velocity_o s') (to_float ops (uint elapsed_us)))
              (to_float ops 1000000))
           (fsin ops (angle_o s')))"
  using assms by (simp_all add: update_def Let_def split_def wheels_velocity_def)

text \<open>
  The estimator \<open>sliver_state\<close> one second later, with one tick on the left wheel and
  none on the right.
\<close>

lemma sliver_fields:
  "left (wheels_velocity (update exact_ops sliver_state 1 0 1000000)) = pi / 67108864"
  "right (wheels_velocity (update exact_ops sliver_state 1 0 1000000)) = 0"
  "velocity_o (update exact_ops sliver_state 1 0 1000000) = pi / 134217728"
  "angle_o (update exact_ops sliver_state 1 0 1000000) = pi / 6710886400000"
  "angle_o sliver_state = 0"
  "y_o sliver_state = 0"
  by (simp_all add: sliver_state_def run_defs)

text \<open>
  Claim C3 says that the straight-line branch moves the position by
  \<open>s = v * elapsed_us / 1000000\<close> along the heading the estimator had before the update.
  The source passes \<^verbatim>\<open>angle\<close>, the new heading of line 208, to \<^verbatim>\<open>std::cos\<close> and
  \<^verbatim>\<open>std::sin\<close>.  The two headings can differ when the wheel velocities differ by no
  more than the machine epsilon without being equal.  After the update of
  \<open>sliver_state\<close> above the left wheel moves at \<open>pi / 2\<^sup>2\<^sup>6\<close> mm/s and the right
  wheel stands still: the branch is taken, the heading goes from 0 to
  \<open>pi / 6710886400000\<close>, and \<open>y\<close> becomes \<open>s * sin (pi / 6710886400000)\<close>,
  which is not the \<open>0 + s * sin 0\<close> of the claim.
\<close>

theorem straight_line_increment_counterexample:
  "fle exact_ops
     (fabs exact_ops
        (fsub exact_ops (left (wheels_velocity (update exact_ops sliver_state 1 0 1000000)))
           (right (wheels_velocity (update exact_ops sliver_state 1 0 1000000)))))
     (epsilon exact_ops) \<and>
   y_o (update exact_ops sliver_state 1 0 1000000) \<noteq>
     fadd exact_ops (y_o sliver_state)
       (fmul exact_ops
          (fdiv exact_ops
             (fmul exact_ops (velocity_o (update exact_ops sliver_state 1 0 1000000))
                (to_float exact_ops (uint (1000000 :: uint32_t))))
             (to_float exact_ops 1000000))
          (fsin exact_ops (angle_o sliver_state)))"
proof -
  let ?s' = "update exact_ops sliver_state 1 0 1000000"
  have pos: "0 < sin (pi / 6710886400000)"
    by (rule sin_gt_zero) (simp_all add: pi_gt_zero)
  have branch: "fle exact_ops
     (fabs exact_ops (fsub exact_ops (left (wheels_velocity ?s')) (right (wheels_velocity ?s'))))
     (epsilon exact_ops)"
    using pi_less_4 by (simp add: sliver_fields) (simp add: exact_ops_def)
  have yv: "y_o ?s' = pi / 134217728 * sin (pi / 6710886400000)"
    using update_straight_line(3) [OF refl branch]
    by (simp add: sliver_fields) (simp add: exact_ops_def)
  have ne: "y_o ?s' \<noteq> 0"
    unfolding yv using pos by auto
  have rhs: "fadd exact_ops (y_o sliver_state)
       (fmul exact_ops
          (fdiv exact_ops
             (fmul exact_ops (velocity_o ?s') (to_float exact_ops (uint (1000000 :: uint32_t))))
             (to_float exact_ops 1000000))
          (fsin exact_ops (angle_o sliver_state))) = 0"
    by (simp add: sliver_fields) (simp add: exact_ops_def)
  show ?thesis
    unfolding rhs using branch ne by (intro conjI)
qed

text \<open>
  Claim C3, amended.  An update that takes the straight-line branch, the absolute
  difference of the two wheel velocities being at most the machine epsilon, moves the
  position by \<open>s = v * elapsed_us / 1000000\<close>: \<open>x += s * cos h'\<close> and
  \<open>y += s * sin h'\<close>, where \<open>v\<close> is the body velocity of this update and \<open>h'\<close> is the
  new heading, the old heading plus \<open>omega / 1000\<close>, which the update commits.
\<close>

theorem straight_line_increment:
  assumes "s' = update ops s raw_left raw_right elapsed_us"
    and "fle ops (fabs ops (fsub ops (left (wheels_velocity s')) (right (wheels_velocity s'))))
           (epsilon ops)"
  shows "Odometry_angle s' =
      fadd ops (Odometry_angle s) (fdiv ops (angular_velocity_o s') (to_float ops 1000)) \<and>
    Odometry_x s' =
      fadd ops (Odometry_x s)
        (fmul ops
           (fdiv ops (fmul ops (velocity_o s') (to_float ops (uint elapsed_us)))
              (to_float ops 1000000))
           (fcos ops (Odometry_angle s'))) \<and>
    Odometry_y s' =
      fadd ops (Odometry_y s)
        (fmul ops
           (fdiv ops (fmul ops (velocity_o s') (to_float ops (uint elapsed_us)))
              (to_float ops 1000000))
           (fsin ops (Odometry_angle s')))"
  using update_straight_line [OF assms]
  by (simp add: Odometry_angle_def Odometry_x_def Odometry_y_def)

text \<open>
  The estimator \<open>cadence_state\<close> after both wheels advance by 10 ticks in 1000
  microseconds (the right encoder, mounted the other way round, reads 1014): the heading
  stays 0 and \<open>x\<close> grows by \<open>10 * (2 pi / 1024) * 15\<close> mm.
\<close>

theorem straight_line_increment_witness:
  "fle exact_ops
     (fabs exact_ops
        (fsub exact_ops (left (wheels_velocity (update exact_ops cadence_state 10 1014 1000)))
           (right (wheels_velocity (update exact_ops cadence_state 10 1014 1000)))))
     (epsilon exact_ops) \<and>
   Odometry_angle (update exact_ops cadence_state 10 1014 1000) = 0 \<and>
   Odometry_x (update exact_ops cadence_state 10 1014 1000) = 10 * (2 * pi / 1024) * 15 \<and>
   Odometry_y (update exact_ops cadence_state 10 1014 1000) = 0"
proof -
  let ?s' = "update exact_ops cadence_state 10 1014 1000"
  have f: "left (wheels_velocity ?s') = 75000 * pi / 256"
    "right (wheels_velocity ?s') = 75000 * pi / 256"
    "velocity_o ?s' = 75000 * pi / 256" "angular_velocity_o ?s' = 0"
    "Odometry_angle cadence_state = 0" "Odometry_x cadence_state = 0"
    "Odometry_y cadence_state = 0"
    by (simp_all add: cadence_state_def run_defs Odometry_angle_def Odometry_x_def
        Odometry_y_def)
  have branch: "fle exact_ops
     (fabs exact_ops (fsub exact_ops (left (wheels_velocity ?s')) (right (wheels_velocity ?s'))))
     (epsilon exact_ops)"
    by (simp add: f) (simp add: exact_ops_def)
  show ?thesis
    using branch straight_line_increment [OF refl branch]
    by (simp add: f) (simp add: exact_ops_def)
qed

text \<open>
  Claim C4 says that the new heading is the old heading plus \<open>omega / 1000\<close>, with
  \<open>omega = (v_left - v_right) / track_width\<close> the body angular velocity of this update,
  and that the heading increment does not depend on \<open>elapsed_us\<close> in any way.  The
  divisor does not; the increment does, through \<open>omega\<close>: the wheel velocities of this
  update are tick deltas divided by \<open>elapsed_us\<close>.  From the same state and with the
  same readings (one tick on the left wheel), 1000 and 2000 microseconds give different
  headings.
\<close>

theorem heading_increment_counterexample:
  "angle_o (update exact_ops cadence_state 1 0 1000)
     \<noteq> angle_o (update exact_ops cadence_state 1 0 2000)"
  by (simp add: cadence_state_def run_defs)

text \<open>
  Claim C4, amended.  Every update commits as new heading the old heading plus
  \<open>omega / 1000\<close>, where \<open>omega = (v_left - v_right) / track_width\<close> is the body
  angular velocity of this update, computed from the wheel velocities of this update.  The
  divisor is the constant 1000 whatever \<open>elapsed_us\<close> is; \<open>elapsed_us\<close> enters the
  increment through \<open>omega\<close> only.
\<close>

theorem heading_increment:
  "Odometry_angle (update ops s raw_left raw_right elapsed_us) =
     fadd ops (Odometry_angle s)
       (fdiv ops (angular_velocity_o (update ops s raw_left raw_right elapsed_us))
          (to_float ops 1000)) \<and>
   angular_velocity_o (update ops s raw_left raw_right elapsed_us) =
     fdiv ops
       (fsub ops (left (wheels_velocity (update ops s raw_left raw_right elapsed_us)))
          (right (wheels_velocity (update ops s raw_left raw_right elapsed_us))))
       (wheel_track_width_o s) \<and>
   wheels_velocity (update ops s raw_left raw_right elapsed_us) =
     \<lparr>left = Wheel_velocity (Wheel_update ops (left_o s) raw_left elapsed_us),
      right = Wheel_velocity (Wheel_update ops (right_o s) raw_right elapsed_us)\<rparr>"
  by (simp add: update_def Let_def split_def wheels_velocity_def Odometry_angle_def)

section \<open>Reset\<close>

text \<open>
  Claim C8.  Resetting twice gives the state that resetting once gives.  After a reset the
  heading, x and y queries return 0, and each of the two wheels reports 0 as its velocity,
  its angular velocity and its angular acceleration.
\<close>

theorem reset_idempotent:
  "reset ops (reset ops s) = reset ops s \<and>
   Odometry_angle (reset ops s) = to_float ops 0 \<and>
   Odometry_x (reset ops s) = to_float ops 0 \<and>
   Odometry_y (reset ops s) = to_float ops 0 \<and>
   Wheel_velocity (left_o (reset ops s)) = to_float ops 0 \<and>
   Wheel_angular_velocity (left_o (reset ops s)) = to_float ops 0 \<and>
   Wheel_angular_acceleration (left_o (reset ops s)) = to_float ops 0 \<and>
   Wheel_velocity (right_o (reset ops s)) = to_float ops 0 \<and>
   Wheel_angular_velocity (right_o (reset ops s)) = to_float ops 0 \<and>
   Wheel_angular_acceleration (right_o (reset ops s)) = to_float ops 0"
  by (simp add: reset_def Wheel_reset_def Odometry_angle_def Odometry_x_def Odometry_y_def
      Wheel_velocity_def Wheel_angular_velocity_def Wheel_angular_acceleration_def)

text \<open>
  Claim C9.  A reset changes the heading, x, y and the two wheels, and nothing else:
  putting those five members back gives the state before the reset.  The three snapshots
  of the wheels and the body velocity and body angular velocity are what they were before
  the reset; after an update and a reset they are the values which that update wrote.
\<close>

theorem reset_frame:
  "reset ops s\<lparr>left_o := left_o s, right_o := right_o s,
      angle_o := angle_o s, x_o := x_o s, y_o := y_o s\<rparr> = s \<and>
   wheels_velocity (reset ops s) = wheels_velocity s \<and>
   wheels_angular_velocity (reset ops s) = wheels_angular_velocity s \<and>
   wheels_angular_acceleration (reset ops s) = wheels_angular_acceleration s \<and>
   velocity_o (reset ops s) = velocity_o s \<and>
   angular_velocity_o (reset ops s) = angular_velocity_o s \<and>
   wheels_velocity (reset ops (update ops s raw_left raw_right elapsed_us)) =
     \<lparr>left = Wheel_velocity (Wheel_update ops (left_o s) raw_left elapsed_us),
      right = Wheel_velocity (Wheel_update ops (right_o s) raw_right elapsed_us)\<rparr> \<and>
   wheels_angular_velocity (reset ops (update ops s raw_left raw_right elapsed_us)) =
     \<lparr>left = Wheel_angular_velocity (Wheel_update ops (left_o s) raw_left elapsed_us),
      right = Wheel_angular_velocity (Wheel_update ops (right_o s) raw_right elapsed_us)\<rparr> \<and>
   wheels_angular_acceleration (reset ops (update ops s raw_left raw_right elapsed_us)) =
     \<lparr>left = Wheel_angular_acceleration (Wheel_update ops (left_o s) raw_left elapsed_us),
      right = Wheel_angular_acceleration (Wheel_update ops (right_o s) raw_right elapsed_us)\<rparr> \<and>
   velocity_o (reset ops (update ops s raw_left raw_right elapsed_us)) =
     velocity_o (update ops s raw_left raw_right elapsed_us) \<and>
   angular_velocity_o (reset ops (update ops s raw_left raw_right elapsed_us)) =
     angular_velocity_o (update ops s raw_left raw_right elapsed_us)"
  by (simp add: reset_def update_def Let_def split_def
      wheels_velocity_def wheels_angular_velocity_def wheels_angular_acceleration_def)

end
